theory Spec2Isabelle
  imports Complex_Main
begin

section \<open>Python values shared by the modules\<close>

text \<open>
  A Python exception is kept as its class name and its message; \<open>str(e)\<close> and the
  \<open>{e}\<close> of an f-string give the message. The values of this type stand for instances
  of Python's \<open>Exception\<close> class, which is what every \<open>except Exception\<close> clause of
  the repository catches.
\<close>

datatype pyexc = PyExc string string

fun str_exc :: "pyexc \<Rightarrow> string" where
  "str_exc (PyExc cls msg) = msg"

definition sq :: string where
  "sq = [CHR 0x27]"

definition nl :: string where
  "nl = [CHR 0x0A]"

text \<open>
  \<open>repr\<close> of a string, for characters that are code points below 256. Python quotes
  with double quotes when the string holds a single quote and no double quote, and
  with single quotes otherwise; it escapes the quote in use and the backslash with a
  backslash, writes tab, newline and carriage return as \<open>\t\<close>, \<open>\n\<close> and \<open>\r\<close>, and
  writes every other character that is not printable as \<open>\x\<close> and two hex digits.
\<close>

definition py_printable :: "char \<Rightarrow> bool" where
  "py_printable c =
     (let n = (of_char c :: nat) in (32 \<le> n \<and> n < 127) \<or> (161 \<le> n \<and> n \<noteq> 173))"

definition hex_digit :: "nat \<Rightarrow> char" where
  "hex_digit n = ''0123456789abcdef'' ! n"

definition repr_char :: "char \<Rightarrow> char \<Rightarrow> string" where
  "repr_char quote c =
     (if c = quote \<or> c = CHR 0x5C then [CHR 0x5C, c]
      else if c = CHR 0x09 then [CHR 0x5C, CHR ''t'']
      else if c = CHR 0x0A then [CHR 0x5C, CHR ''n'']
      else if c = CHR 0x0D then [CHR 0x5C, CHR ''r'']
      else if py_printable c then [c]
      else [CHR 0x5C, CHR ''x'', hex_digit ((of_char c :: nat) div 16),
            hex_digit ((of_char c :: nat) mod 16)])"

definition py_repr_str :: "string \<Rightarrow> string" where
  "py_repr_str s =
     (let quote = (if CHR 0x27 \<in> set s \<and> CHR 0x22 \<notin> set s then CHR 0x22 else CHR 0x27)
      in quote # concat (map (repr_char quote) s) @ [quote])"

text \<open>\<open>repr\<close> of a list of strings and of a dict with string keys and values.\<close>

fun join :: "string \<Rightarrow> string list \<Rightarrow> string" where
  "join sep [] = []"
| "join sep [x] = x"
| "join sep (x # y # ys) = x @ sep @ join sep (y # ys)"

definition py_repr_list :: "string list \<Rightarrow> string" where
  "py_repr_list xs = ''['' @ join '', '' (map py_repr_str xs) @ '']''"

definition py_repr_dict :: "(string \<times> string) list \<Rightarrow> string" where
  "py_repr_dict kvs =
     ''{'' @ join '', '' (map (\<lambda>(k, v). py_repr_str k @ '': '' @ py_repr_str v) kvs) @ ''}''"

text \<open>\<open>range(n)\<close> of a Python int: empty when \<open>n \<le> 0\<close>.\<close>

definition py_range :: "int \<Rightarrow> nat list" where
  "py_range n = [0..<nat n]"

text \<open>
  A message of the conversation is either a message object, which has a \<open>content\<close>
  attribute, or a plain dict of string fields (the form in which \<open>main.py\<close> hands the
  user message to the graph).
\<close>

datatype message = ObjMessage string | DictMessage "(string \<times> string) list"

text \<open>
  What a function does besides returning: the calls it makes to the handler it wraps,
  the sleeps and the log records, in the order they happen. Log records keep the
  arguments of the logged f-string; the formatting of numbers is not modelled.
\<close>

datatype log_record =
    LLMRequest string
  | LLMResponse rat
  | RetryAttemptFailed nat pyexc rat
  | RetryAllFailed int
  | ToolError string
  | InvokeError pyexc
  | StreamError pyexc

datatype 'req effect = Call 'req | Sleep rat | Log log_record

section \<open>src/core/settings.py and src/core/constants.py\<close>

text \<open>
  The middleware fields of \<open>Settings\<close>, which are read from the environment, and their
  declared defaults.
\<close>

record Settings =
  ENABLE_RETRY :: bool
  ENABLE_LOGGING :: bool
  ENABLE_SUMMARIZATION :: bool
  MAX_RETRIES :: int

definition default_settings :: Settings where
  "default_settings =
     \<lparr>ENABLE_RETRY = False, ENABLE_LOGGING = False, ENABLE_SUMMARIZATION = True,
      MAX_RETRIES = 3\<rparr>"

definition NODES :: "string list" where
  "NODES = [''assistant'']"

record ModelConfig =
  gpt_5_2 :: string
  gpt_5_mini :: string
  o4_mini :: string
  o3 :: string

definition models :: ModelConfig where
  "models = \<lparr>gpt_5_2 = ''gpt-5.2'', gpt_5_mini = ''gpt-5-mini'', o4_mini = ''o4-mini'',
     o3 = ''o3''\<rparr>"

text \<open>
  The delays are Python floats in the source and rationals here. The configured values
  1.0 and 10.0 are exact in binary floating point.
\<close>

record MiddlewareConfig =
  max_retries :: int
  retry_base_delay :: rat
  max_retry_delay :: rat

definition middleware_config :: MiddlewareConfig where
  "middleware_config = \<lparr>max_retries = 3, retry_base_delay = 1, max_retry_delay = 10\<rparr>"

section \<open>src/core/context.py and src/agent/state.py\<close>

record RequestContext =
  ctx_user_id :: string
  session_id :: string
  user_role :: string
  metadata :: "(string \<times> string) list"

record Output =
  answer :: string
  confidence :: rat
  sources :: "string list"

text \<open>
  \<open>State\<close> is a TypedDict: a dict in which each key may be missing. A field is \<open>None\<close>
  when its key is absent.
\<close>

record State =
  messages :: "message list option"
  state_node :: "string option"
  structured_response :: "Output option"

section \<open>src/tools/tools.py\<close>

definition allowed :: string where
  "allowed = ''0123456789+-*/.(). ''"

text \<open>
  \<open>calculate\<close>: Python's \<open>eval\<close> and \<open>str\<close> are parameters, each returning a value or
  the exception it raises. \<open>calculate_try\<close> is the body of the \<open>try\<close> block and
  \<open>calculate\<close> adds the \<open>except Exception\<close> clause.
\<close>

definition calculate_try ::
  "(string \<Rightarrow> pyexc + 'v) \<Rightarrow> ('v \<Rightarrow> pyexc + string) \<Rightarrow> string \<Rightarrow> pyexc + string" where
  "calculate_try eval str expression =
     (if \<not> list_all (\<lambda>c. c \<in> set allowed) expression then Inr ''Error: Invalid characters''
      else (case eval expression of
              Inl e \<Rightarrow> Inl e
            | Inr v \<Rightarrow> str v))"

definition calculate ::
  "(string \<Rightarrow> pyexc + 'v) \<Rightarrow> ('v \<Rightarrow> pyexc + string) \<Rightarrow> string \<Rightarrow> pyexc + string" where
  "calculate eval str expression =
     (case calculate_try eval str expression of
        Inr s \<Rightarrow> Inr s
      | Inl e \<Rightarrow> Inr (''Error: '' @ str_exc e))"

section \<open>src/agent/graph.py\<close>

definition route_to_node :: "State \<Rightarrow> string" where
  "route_to_node state =
     (case state_node state of Some n \<Rightarrow> n | None \<Rightarrow> ''assistant'')"

section \<open>src/core/middleware.py\<close>

text \<open>
  The handler that a middleware wraps is a function of the request and of the state of
  the world it runs in; it returns a response or the exception it raises, and the new
  state. The rest of a \<open>ModelRequest\<close> (model, tools, system prompt, runtime) is the
  field \<open>other\<close>.
\<close>

record 'p ModelRequest =
  state :: State
  other :: 'p

subsection \<open>Logging\<close>

definition message_text :: "message \<Rightarrow> string" where
  "message_text last_msg =
     (case last_msg of
        ObjMessage content \<Rightarrow> content
      | DictMessage kvs \<Rightarrow> py_repr_dict kvs)"

definition log_request :: "'p ModelRequest \<Rightarrow> 'p ModelRequest effect list" where
  "log_request request =
     (case messages (state request) of
        None \<Rightarrow> []
      | Some [] \<Rightarrow> []
      | Some (m # ms) \<Rightarrow> [Log (LLMRequest (take 100 (message_text (last (m # ms)))))])"

definition logging_middleware ::
  "('s \<Rightarrow> rat) \<Rightarrow> 'p ModelRequest \<Rightarrow> ('p ModelRequest \<Rightarrow> 's \<Rightarrow> (pyexc + 'resp) \<times> 's) \<Rightarrow> 's
     \<Rightarrow> (pyexc + 'resp) \<times> 's \<times> 'p ModelRequest effect list" where
  "logging_middleware time request handler s =
     (let start = time s;
          before = log_request request
      in case handler request s of
           (Inl e, s') \<Rightarrow> (Inl e, s', before @ [Call request])
         | (Inr response, s') \<Rightarrow>
             (Inr response, s',
              before @ [Call request, Log (LLMResponse (time s' - start))]))"

subsection \<open>Retry\<close>

text \<open>
  The product \<open>x * (2**k)\<close> of a float and an int. Python converts the int to a float
  first, and the conversion raises OverflowError when the int is \<open>2**1024\<close> or more.
  Below that, a power of two is exact as a float, and so is its product with the
  configured base 1.0, which is the only \<open>x\<close> the repository uses.
\<close>

definition float_times_pow2 :: "rat \<Rightarrow> nat \<Rightarrow> pyexc + rat" where
  "float_times_pow2 x k =
     (if 1024 \<le> k then Inl (PyExc ''OverflowError'' ''int too large to convert to float'')
      else Inr (x * 2 ^ k))"

text \<open>
  The expression \<open>min(retry_base_delay * (2**attempt), max_retry_delay)\<close>: a delay, or
  the exception that the product raises.
\<close>

definition retry_delay :: "nat \<Rightarrow> pyexc + rat" where
  "retry_delay attempt =
     (case float_times_pow2 (retry_base_delay middleware_config) attempt of
        Inl e \<Rightarrow> Inl e
      | Inr d \<Rightarrow> Inr (min d (max_retry_delay middleware_config)))"

text \<open>
  The \<open>for attempt in range(settings.MAX_RETRIES)\<close> loop, over the attempts still to
  make. The delay is computed inside the \<open>except\<close> clause, so an exception raised by
  its computation leaves the function at once, before the warning and the sleep. After
  the loop the source raises \<open>last_error\<close>; raising \<open>None\<close> is a TypeError. A sleep is
  recorded as an effect; it leaves the state that the handler sees as the failed call
  left it.
\<close>

fun retry_loop ::
  "int \<Rightarrow> 'req \<Rightarrow> ('req \<Rightarrow> 's \<Rightarrow> (pyexc + 'resp) \<times> 's) \<Rightarrow> nat list \<Rightarrow> pyexc option \<Rightarrow> 's
     \<Rightarrow> (pyexc + 'resp) \<times> 's \<times> 'req effect list" where
  "retry_loop mr request handler [] last_error s =
     (case last_error of
        None \<Rightarrow> Inl (PyExc ''TypeError'' ''exceptions must derive from BaseException'')
      | Some e \<Rightarrow> Inl e,
      s, [Log (RetryAllFailed mr)])"
| "retry_loop mr request handler (attempt # rest) last_error s =
     (case handler request s of
        (Inr response, s') \<Rightarrow> (Inr response, s', [Call request])
      | (Inl e, s') \<Rightarrow>
          (case retry_delay attempt of
             Inl overflow \<Rightarrow> (Inl overflow, s', [Call request])
           | Inr delay \<Rightarrow>
               (let (result, s'', effects) = retry_loop mr request handler rest (Some e) s'
                in (result, s'',
                    [Call request, Log (RetryAttemptFailed (attempt + 1) e delay), Sleep delay]
                      @ effects))))"

definition retry_middleware ::
  "Settings \<Rightarrow> 'req \<Rightarrow> ('req \<Rightarrow> 's \<Rightarrow> (pyexc + 'resp) \<times> 's) \<Rightarrow> 's
     \<Rightarrow> (pyexc + 'resp) \<times> 's \<times> 'req effect list" where
  "retry_middleware settings request handler s =
     retry_loop (MAX_RETRIES settings) request handler (py_range (MAX_RETRIES settings)) None s"

subsection \<open>Tool errors\<close>

text \<open>
  A tool call is a dict; its string entries (\<open>name\<close>, \<open>id\<close>, \<open>type\<close>) are the ones the
  middleware reads. A tool handler returns a \<open>ToolMessage\<close> or a \<open>Command\<close>.
\<close>

record ToolCallRequest =
  tool_call :: "string \<rightharpoonup> string"

record ToolMessage =
  content :: string
  tool_call_id :: string

datatype 'c tool_result = Message ToolMessage | Command 'c

definition error_message ::
  "ToolCallRequest \<Rightarrow> pyexc \<Rightarrow> (pyexc + 'c tool_result) \<times> ToolCallRequest effect list" where
  "error_message request e =
     (let tool_name = (case tool_call request ''name'' of Some n \<Rightarrow> n | None \<Rightarrow> ''unknown'');
          error_msg = ''Tool error in '' @ sq @ tool_name @ sq @ '': '' @ str_exc e
                        @ ''. Please check your input and try again.''
      in (case tool_call request ''id'' of
            None \<Rightarrow> Inl (PyExc ''KeyError'' (py_repr_str ''id''))
          | Some i \<Rightarrow> Inr (Message \<lparr>content = error_msg, tool_call_id = i\<rparr>),
          [Log (ToolError error_msg)]))"

definition handle ::
  "ToolCallRequest \<Rightarrow> (ToolCallRequest \<Rightarrow> 's \<Rightarrow> (pyexc + 'c tool_result) \<times> 's) \<Rightarrow> 's
     \<Rightarrow> (pyexc + 'c tool_result) \<times> 's \<times> ToolCallRequest effect list" where
  "handle request handler s =
     (case handler request s of
        (Inr result, s') \<Rightarrow> (Inr result, s', [Call request])
      | (Inl e, s') \<Rightarrow>
          (let (result, effects) = error_message request e
           in (result, s', Call request # effects)))"

text \<open>
  \<open>wrap_tool_call\<close> and \<open>awrap_tool_call\<close> delegate to \<open>_handle\<close> and \<open>_ahandle\<close>, which
  differ only in awaiting the handler.
\<close>

definition wrap_tool_call ::
  "ToolCallRequest \<Rightarrow> (ToolCallRequest \<Rightarrow> 's \<Rightarrow> (pyexc + 'c tool_result) \<times> 's) \<Rightarrow> 's
     \<Rightarrow> (pyexc + 'c tool_result) \<times> 's \<times> ToolCallRequest effect list" where
  "wrap_tool_call request handler s = handle request handler s"

definition awrap_tool_call ::
  "ToolCallRequest \<Rightarrow> (ToolCallRequest \<Rightarrow> 's \<Rightarrow> (pyexc + 'c tool_result) \<times> 's) \<Rightarrow> 's
     \<Rightarrow> (pyexc + 'c tool_result) \<times> 's \<times> ToolCallRequest effect list" where
  "awrap_tool_call request handler s = handle request handler s"

subsection \<open>The default stack\<close>

datatype middleware =
    SummarizationMiddleware string "string \<times> nat" "string \<times> nat"
  | LoggingMiddleware
  | RetryMiddleware
  | ToolErrorMiddleware

definition build_middleware :: "Settings \<Rightarrow> middleware list" where
  "build_middleware settings =
     (if ENABLE_SUMMARIZATION settings
      then [SummarizationMiddleware (gpt_5_mini models) (''tokens'', 8000) (''messages'', 10)]
      else [])
     @ (if ENABLE_LOGGING settings then [LoggingMiddleware] else [])
     @ (if ENABLE_RETRY settings then [RetryMiddleware] else [])
     @ [ToolErrorMiddleware]"

definition DEFAULT_MIDDLEWARE :: "Settings \<Rightarrow> middleware list" where
  "DEFAULT_MIDDLEWARE settings = build_middleware settings"

section \<open>main.py\<close>

record InvokeRequest =
  message :: string
  node :: string
  thread_id :: "string option"
  user_id :: "string option"

record InvokeResponse =
  resp_thread_id :: string
  resp_node :: string
  response :: string
  resp_structured_response :: "Output option"

datatype http_exception = HTTPException nat string

text \<open>\<open>x or d\<close> on an optional string: \<open>None\<close> and the empty string are falsy.\<close>

definition or_else :: "string option \<Rightarrow> string \<Rightarrow> string" where
  "or_else x d = (case x of None \<Rightarrow> d | Some v \<Rightarrow> if v = [] then d else v)"

text \<open>
  \<open>request.thread_id or str(uuid.uuid4())\<close>: the generator of uuids is a parameter that
  reads and advances the state of the world, and it runs only when the left operand is
  falsy.
\<close>

definition choose_thread_id :: "('w \<Rightarrow> string \<times> 'w) \<Rightarrow> InvokeRequest \<Rightarrow> 'w \<Rightarrow> string \<times> 'w" where
  "choose_thread_id uuid4 request w =
     (case thread_id request of
        None \<Rightarrow> uuid4 w
      | Some t \<Rightarrow> if t = [] then uuid4 w else (t, w))"

definition make_context :: "InvokeRequest \<Rightarrow> string \<Rightarrow> RequestContext" where
  "make_context request tid =
     \<lparr>ctx_user_id = or_else (user_id request) [], session_id = tid, user_role = ''user'',
      metadata = []\<rparr>"

definition graph_input :: "InvokeRequest \<Rightarrow> State" where
  "graph_input request =
     \<lparr>messages = Some [DictMessage [(''role'', ''user''), (''content'', message request)]],
      state_node = Some (node request), structured_response = None\<rparr>"

definition last_content :: "message \<Rightarrow> string" where
  "last_content m =
     (case m of
        ObjMessage c \<Rightarrow> c
      | DictMessage kvs \<Rightarrow> (case map_of kvs ''content'' of Some c \<Rightarrow> c | None \<Rightarrow> []))"

definition response_text :: "State \<Rightarrow> string" where
  "response_text result =
     (case messages result of
        None \<Rightarrow> []
      | Some [] \<Rightarrow> []
      | Some (m # ms) \<Rightarrow> last_content (last (m # ms)))"

type_synonym graph_call = "State \<times> string \<times> RequestContext"

text \<open>
  \<open>graph.ainvoke\<close> is a parameter: from the input state, the thread id, the context and
  the world it gives the final state or the exception raised, and the new world.
\<close>

definition invoke ::
  "('w \<Rightarrow> string \<times> 'w) \<Rightarrow> (State \<Rightarrow> string \<Rightarrow> RequestContext \<Rightarrow> 'w \<Rightarrow> (pyexc + State) \<times> 'w)
     \<Rightarrow> InvokeRequest \<Rightarrow> 'w \<Rightarrow> (http_exception + InvokeResponse) \<times> 'w \<times> graph_call effect list" where
  "invoke uuid4 ainvoke request w =
     (if node request \<notin> set NODES
      then (Inl (HTTPException 400
                  (''Unknown node: '' @ node request @ ''. Available: '' @ py_repr_list NODES)),
            w, [])
      else
        (let (tid, w1) = choose_thread_id uuid4 request w;
             context = make_context request tid;
             call = Call (graph_input request, tid, context)
         in case ainvoke (graph_input request) tid context w1 of
              (Inr result, w2) \<Rightarrow>
                (Inr \<lparr>resp_thread_id = tid, resp_node = node request,
                      response = response_text result,
                      resp_structured_response = structured_response result\<rparr>,
                 w2, [call])
            | (Inl e, w2) \<Rightarrow>
                (Inl (HTTPException 500 (str_exc e)), w2, [call, Log (InvokeError e)])))"

text \<open>
  An event of \<open>graph.astream_events\<close>: its \<open>event\<close> key and the chunk under \<open>data\<close>, each
  possibly missing; a chunk may or may not have a \<open>content\<close> attribute.
\<close>

datatype chunk = Chunk "string option"

record stream_event =
  event :: "string option"
  chunk :: "chunk option"

fun token_events :: "stream_event list \<Rightarrow> string list" where
  "token_events [] = []"
| "token_events (ev # evs) =
     (if event ev = Some ''on_chat_model_stream''
      then (case chunk ev of
              Some (Chunk (Some c)) \<Rightarrow> (if c \<noteq> [] then [''data: '' @ c @ nl @ nl] else [])
            | _ \<Rightarrow> [])
      else [])
     @ token_events evs"

text \<open>
  The generator \<open>generate\<close>. The event stream of the graph is a parameter: the events it
  yields before it ends, and the exception that ends it if it fails.
\<close>

definition generate ::
  "(State \<Rightarrow> string \<Rightarrow> RequestContext \<Rightarrow> 'w \<Rightarrow> (stream_event list \<times> pyexc option) \<times> 'w)
     \<Rightarrow> InvokeRequest \<Rightarrow> string \<Rightarrow> RequestContext \<Rightarrow> 'w
     \<Rightarrow> string list \<times> 'w \<times> graph_call effect list" where
  "generate astream_events request tid context w =
     (case astream_events (graph_input request) tid context w of
        ((events, None), w') \<Rightarrow>
          (token_events events @ [''data: [DONE]'' @ nl @ nl], w',
           [Call (graph_input request, tid, context)])
      | ((events, Some e), w') \<Rightarrow>
          (token_events events @ [''data: Error: '' @ str_exc e @ nl @ nl], w',
           [Call (graph_input request, tid, context), Log (StreamError e)]))"

record StreamingResponse =
  body :: "string list"
  media_type :: string
  headers :: "(string \<times> string) list"

definition stream ::
  "('w \<Rightarrow> string \<times> 'w)
     \<Rightarrow> (State \<Rightarrow> string \<Rightarrow> RequestContext \<Rightarrow> 'w \<Rightarrow> (stream_event list \<times> pyexc option) \<times> 'w)
     \<Rightarrow> InvokeRequest \<Rightarrow> 'w
     \<Rightarrow> (http_exception + StreamingResponse) \<times> 'w \<times> graph_call effect list" where
  "stream uuid4 astream_events request w =
     (if node request \<notin> set NODES
      then (Inl (HTTPException 400 (''Unknown node: '' @ node request)), w, [])
      else
        (let (tid, w1) = choose_thread_id uuid4 request w;
             context = make_context request tid;
             (chunks, w2, effects) = generate astream_events request tid context w1
         in (Inr \<lparr>body = chunks, media_type = ''text/event-stream'',
                   headers = [(''X-Thread-ID'', tid), (''X-Node'', node request)]\<rparr>,
             w2, effects)))"

section \<open>Observations and concrete inputs\<close>

text \<open>The requests passed to the wrapped handler, and the delays slept, in order.\<close>

fun calls_of :: "'req effect list \<Rightarrow> 'req list" where
  "calls_of [] = []"
| "calls_of (Call r # effects) = r # calls_of effects"
| "calls_of (x # effects) = calls_of effects"

fun sleeps_of :: "'req effect list \<Rightarrow> rat list" where
  "sleeps_of [] = []"
| "sleeps_of (Sleep d # effects) = d # sleeps_of effects"
| "sleeps_of (x # effects) = sleeps_of effects"

text \<open>
  What \<open>n\<close> successive calls of a handler on the same request return, from a given
  state of the world, and the state they leave.
\<close>

fun outcomes ::
  "('req \<Rightarrow> 's \<Rightarrow> (pyexc + 'resp) \<times> 's) \<Rightarrow> 'req \<Rightarrow> 's \<Rightarrow> nat \<Rightarrow> (pyexc + 'resp) list" where
  "outcomes handler request s 0 = []"
| "outcomes handler request s (Suc n) =
     fst (handler request s) # outcomes handler request (snd (handler request s)) n"

fun state_after :: "('req \<Rightarrow> 's \<Rightarrow> (pyexc + 'resp) \<times> 's) \<Rightarrow> 'req \<Rightarrow> 's \<Rightarrow> nat \<Rightarrow> 's" where
  "state_after handler request s 0 = s"
| "state_after handler request s (Suc n) =
     state_after handler request (snd (handler request s)) n"

text \<open>An \<open>eval\<close> that raises ZeroDivisionError and a \<open>str\<close> on ints, for \<open>calculate\<close>.\<close>

definition eval_div0 :: "string \<Rightarrow> pyexc + int" where
  "eval_div0 x = Inl (PyExc ''ZeroDivisionError'' ''division by zero'')"

definition str_int0 :: "int \<Rightarrow> pyexc + string" where
  "str_int0 v = Inr ''0''"

text \<open>
  A model call that times out five times and then answers, settings that allow six
  attempts, and a model call that fails at every call, with a different message the
  first time. The state of the world counts the calls.
\<close>

definition slow_model :: "unit \<Rightarrow> nat \<Rightarrow> (pyexc + string) \<times> nat" where
  "slow_model request s =
     (if s < 5 then Inl (PyExc ''TimeoutError'' ''timed out'') else Inr ''ok'', Suc s)"

definition patient_settings :: Settings where
  "patient_settings = default_settings\<lparr>ENABLE_RETRY := True, MAX_RETRIES := 6\<rparr>"

text \<open>
  A model call that times out 1025 times and then answers, and settings that allow
  1026 attempts.
\<close>

definition stubborn_model :: "unit \<Rightarrow> nat \<Rightarrow> (pyexc + string) \<times> nat" where
  "stubborn_model request s =
     (if s < 1025 then Inl (PyExc ''TimeoutError'' ''timed out'') else Inr ''ok'', Suc s)"

definition stubborn_settings :: Settings where
  "stubborn_settings = default_settings\<lparr>ENABLE_RETRY := True, MAX_RETRIES := 1026\<rparr>"

definition failing_model :: "unit \<Rightarrow> nat \<Rightarrow> (pyexc + string) \<times> nat" where
  "failing_model request s =
     (Inl (PyExc ''RuntimeError'' (if s = 0 then ''first failure'' else ''later failure'')), Suc s)"

text \<open>
  The delay \<open>base * 2^attempt\<close> capped at the maximum delay, as a number, and what the
  retry loop does around one failed attempt whose delay is that number: the call, the
  warning, the sleep.
\<close>

definition capped_delay :: "nat \<Rightarrow> rat" where
  "capped_delay attempt =
     min (retry_base_delay middleware_config * 2 ^ attempt) (max_retry_delay middleware_config)"

definition failed_attempt :: "'req \<Rightarrow> nat \<times> pyexc \<Rightarrow> 'req effect list" where
  "failed_attempt request = (\<lambda>(attempt, e).
     [Call request, Log (RetryAttemptFailed (attempt + 1) e (capped_delay attempt)),
      Sleep (capped_delay attempt)])"

text \<open>A tool that raises, and a call of the \<open>calculate\<close> tool.\<close>

definition failing_tool :: "ToolCallRequest \<Rightarrow> nat \<Rightarrow> (pyexc + unit tool_result) \<times> nat" where
  "failing_tool request s = (Inl (PyExc ''ValueError'' ''bad input''), Suc s)"

definition calculate_call :: ToolCallRequest where
  "calculate_call = \<lparr>tool_call = [''name'' \<mapsto> ''calculate'', ''id'' \<mapsto> ''call_1'']\<rparr>"

text \<open>
  A source of uuids, a graph that answers \<open>4\<close>, an event stream that completes and one
  that fails after a token; a request and the context built for it.
\<close>

definition uuid_source :: "nat \<Rightarrow> string \<times> nat" where
  "uuid_source w = (''uuid-'' @ replicate w (CHR ''0''), Suc w)"

definition answering_graph ::
  "State \<Rightarrow> string \<Rightarrow> RequestContext \<Rightarrow> nat \<Rightarrow> (pyexc + State) \<times> nat" where
  "answering_graph input tid context w =
     (Inr (input\<lparr>messages :=
             Some ((case messages input of None \<Rightarrow> [] | Some ms \<Rightarrow> ms) @ [ObjMessage ''4''])\<rparr>),
      w)"

definition completing_events ::
  "State \<Rightarrow> string \<Rightarrow> RequestContext \<Rightarrow> nat \<Rightarrow> (stream_event list \<times> pyexc option) \<times> nat" where
  "completing_events input tid context w =
     (([\<lparr>event = Some ''on_chat_model_start'', chunk = None\<rparr>,
        \<lparr>event = Some ''on_chat_model_stream'', chunk = Some (Chunk (Some ''4''))\<rparr>,
        \<lparr>event = Some ''on_chat_model_stream'', chunk = Some (Chunk (Some []))\<rparr>],
       None), w)"

definition failing_events ::
  "State \<Rightarrow> string \<Rightarrow> RequestContext \<Rightarrow> nat \<Rightarrow> (stream_event list \<times> pyexc option) \<times> nat" where
  "failing_events input tid context w =
     (([\<lparr>event = Some ''on_chat_model_stream'', chunk = Some (Chunk (Some ''Hel''))\<rparr>],
       Some (PyExc ''RuntimeError'' ''connection lost'')), w)"

definition ask :: "string \<Rightarrow> string option \<Rightarrow> InvokeRequest" where
  "ask n t = \<lparr>message = ''2+2'', node = n, thread_id = t, user_id = None\<rparr>"

definition ask_context :: "string \<Rightarrow> RequestContext" where
  "ask_context tid = \<lparr>ctx_user_id = [], session_id = tid, user_role = ''user'', metadata = []\<rparr>"

section \<open>The calculate tool\<close>

text \<open>
  Claim C10. For every input string \<open>calculate\<close> returns a string and never raises. If
  the input holds a character outside the digits, \<open>+ - * / . ( )\<close> and the space, the
  result is \<open>Error: Invalid characters\<close>. On an input of allowed characters, an
  exception raised by the evaluation (by \<open>eval\<close> or by \<open>str\<close>) becomes the string
  \<open>Error: \<close> followed by its message, and otherwise the result is the printed value.
\<close>

theorem calculate_never_raises:
  "(\<exists>out. calculate eval str expression = Inr out)
   \<and> ((\<exists>c \<in> set expression. c \<notin> set ''0123456789'' \<union> {CHR ''+'', CHR ''-'', CHR ''*'', CHR ''/'', CHR ''.'', CHR ''('', CHR '')'', CHR '' ''})
        \<longrightarrow> calculate eval str expression = Inr ''Error: Invalid characters'')
   \<and> ((\<forall>c \<in> set expression. c \<in> set ''0123456789'' \<union> {CHR ''+'', CHR ''-'', CHR ''*'', CHR ''/'', CHR ''.'', CHR ''('', CHR '')'', CHR '' ''})
        \<longrightarrow> (\<forall>e. eval expression = Inl e
               \<longrightarrow> calculate eval str expression = Inr (''Error: '' @ str_exc e))
          \<and> (\<forall>v e. eval expression = Inr v \<and> str v = Inl e
               \<longrightarrow> calculate eval str expression = Inr (''Error: '' @ str_exc e))
          \<and> (\<forall>v out. eval expression = Inr v \<and> str v = Inr out
               \<longrightarrow> calculate eval str expression = Inr out))"
proof -
  have chars: "set allowed = set ''0123456789'' \<union> {CHR ''+'', CHR ''-'', CHR ''*'', CHR ''/'', CHR ''.'', CHR ''('', CHR '')'', CHR '' ''}"
    by (auto simp: allowed_def)
  have total: "\<exists>out. calculate eval str expression = Inr out"
    by (simp add: calculate_def split: sum.splits)
  have bad: "calculate eval str expression = Inr ''Error: Invalid characters''"
    if "\<exists>c \<in> set expression. c \<notin> set allowed"
    using that by (auto simp: calculate_def calculate_try_def list_all_iff)
  have good: "calculate eval str expression =
      (case eval expression of Inl e \<Rightarrow> Inr (''Error: '' @ str_exc e)
       | Inr v \<Rightarrow> (case str v of Inl e \<Rightarrow> Inr (''Error: '' @ str_exc e) | Inr out \<Rightarrow> Inr out))"
    if "\<forall>c \<in> set expression. c \<in> set allowed"
    using that by (auto simp: calculate_def calculate_try_def list_all_iff split: sum.splits)
  show ?thesis
    using total bad good unfolding chars by (auto split: sum.splits)
qed

text \<open>
  Claim C10 at two inputs: \<open>import os\<close>, which holds letters, and \<open>1/0\<close>, whose
  evaluation raises.
\<close>

theorem calculate_never_raises_witness:
  "calculate eval_div0 str_int0 ''import os'' = Inr ''Error: Invalid characters''
   \<and> calculate eval_div0 str_int0 ''1/0'' = Inr ''Error: division by zero''"
proof -
  have a: "\<exists>c \<in> set ''import os''. c \<notin> set ''0123456789'' \<union> {CHR ''+'', CHR ''-'', CHR ''*'', CHR ''/'', CHR ''.'', CHR ''('', CHR '')'', CHR '' ''}"
    by simp
  have b: "\<forall>c \<in> set ''1/0''. c \<in> set ''0123456789'' \<union> {CHR ''+'', CHR ''-'', CHR ''*'', CHR ''/'', CHR ''.'', CHR ''('', CHR '')'', CHR '' ''}"
    by simp
  have c: "eval_div0 ''1/0'' = Inl (PyExc ''ZeroDivisionError'' ''division by zero'')"
    by (simp add: eval_div0_def)
  from a calculate_never_raises [of eval_div0 str_int0 "''import os''"]
  have 1: "calculate eval_div0 str_int0 ''import os'' = Inr ''Error: Invalid characters''"
    by blast
  from b c calculate_never_raises [of eval_div0 str_int0 "''1/0''"]
  have 2: "calculate eval_div0 str_int0 ''1/0''
             = Inr (''Error: '' @ str_exc (PyExc ''ZeroDivisionError'' ''division by zero''))"
    by blast
  from 1 2 show ?thesis by simp
qed

section \<open>Routing\<close>

text \<open>
  Claim C5, as the code has it. When the routing field of the state is present,
  \<open>route_to_node\<close> returns exactly its value, so a registered node name is returned as
  it is, and so is the empty string. When the field is absent, \<open>route_to_node\<close>
  returns \<open>assistant\<close>.
\<close>

theorem route_to_node_field:
  "(\<forall>n. state_node st = Some n \<longrightarrow> route_to_node st = n)
   \<and> (state_node st = None \<longrightarrow> route_to_node st = ''assistant'')"
  by (simp add: route_to_node_def)

text \<open>Claim C5 at a state that carries the registered name, and at one without the field.\<close>

theorem route_to_node_field_witness:
  "route_to_node \<lparr>messages = None, state_node = Some ''assistant'', structured_response = None\<rparr>
     = ''assistant''
   \<and> ''assistant'' \<in> set NODES
   \<and> route_to_node \<lparr>messages = None, state_node = None, structured_response = None\<rparr>
     = ''assistant''"
  using route_to_node_field [of "\<lparr>messages = None, state_node = Some ''assistant'', structured_response = None\<rparr>"]
    route_to_node_field [of "\<lparr>messages = None, state_node = None, structured_response = None\<rparr>"]
  by (simp add: NODES_def)

text \<open>
  Claim C5 as stated fails where the routing field is the empty string: the result is
  the empty string, not the default node.
\<close>

theorem route_to_node_empty_counterexample:
  "route_to_node \<lparr>messages = None, state_node = Some [], structured_response = None\<rparr>
     \<noteq> ''assistant''"
  by (simp add: route_to_node_def)

section \<open>The middleware stack\<close>

text \<open>
  Claim C4, as the code has it. The default middleware chain is built once, from the
  settings alone. It holds, in the order summarization, logging, retry, tool-error
  isolation, the stages whose flag is enabled, and tool-error isolation always. With
  the three flags enabled it is exactly the four stages; with the declared defaults
  (retry and logging disabled) it is summarization followed by tool-error isolation.
\<close>

theorem default_middleware_stages:
  "(ENABLE_SUMMARIZATION settings \<and> ENABLE_LOGGING settings \<and> ENABLE_RETRY settings
      \<longrightarrow> DEFAULT_MIDDLEWARE settings =
            [SummarizationMiddleware ''gpt-5-mini'' (''tokens'', 8000) (''messages'', 10),
             LoggingMiddleware, RetryMiddleware, ToolErrorMiddleware])
   \<and> DEFAULT_MIDDLEWARE settings =
       filter (\<lambda>m. case m of
                      SummarizationMiddleware model trigger keep \<Rightarrow> ENABLE_SUMMARIZATION settings
                    | LoggingMiddleware \<Rightarrow> ENABLE_LOGGING settings
                    | RetryMiddleware \<Rightarrow> ENABLE_RETRY settings
                    | ToolErrorMiddleware \<Rightarrow> True)
         [SummarizationMiddleware ''gpt-5-mini'' (''tokens'', 8000) (''messages'', 10),
          LoggingMiddleware, RetryMiddleware, ToolErrorMiddleware]
   \<and> DEFAULT_MIDDLEWARE default_settings =
       [SummarizationMiddleware ''gpt-5-mini'' (''tokens'', 8000) (''messages'', 10),
        ToolErrorMiddleware]"
  by (simp add: DEFAULT_MIDDLEWARE_def build_middleware_def models_def default_settings_def)

text \<open>Claim C4 at settings that enable the three optional stages.\<close>

theorem default_middleware_stages_witness:
  "DEFAULT_MIDDLEWARE
     \<lparr>ENABLE_RETRY = True, ENABLE_LOGGING = True, ENABLE_SUMMARIZATION = True, MAX_RETRIES = 3\<rparr>
     = [SummarizationMiddleware ''gpt-5-mini'' (''tokens'', 8000) (''messages'', 10),
        LoggingMiddleware, RetryMiddleware, ToolErrorMiddleware]"
  using default_middleware_stages
    [of "\<lparr>ENABLE_RETRY = True, ENABLE_LOGGING = True, ENABLE_SUMMARIZATION = True, MAX_RETRIES = 3\<rparr>"]
  by simp

text \<open>
  Claim C4 as stated fails at the declared defaults of the settings: the chain has two
  stages, not four.
\<close>

theorem default_middleware_counterexample:
  "DEFAULT_MIDDLEWARE default_settings
     \<noteq> [SummarizationMiddleware ''gpt-5-mini'' (''tokens'', 8000) (''messages'', 10),
         LoggingMiddleware, RetryMiddleware, ToolErrorMiddleware]"
  by (simp add: DEFAULT_MIDDLEWARE_def build_middleware_def models_def default_settings_def)

section \<open>The logging stage\<close>

text \<open>
  Claim C9. For every model call, the logging stage returns what the inner handler
  returns (its response, or the exception it raises), leaves the world as the handler
  left it, and calls the handler exactly once, with the request it was given.
\<close>

theorem logging_middleware_transparent:
  "fst (logging_middleware time request handler s) = fst (handler request s)
   \<and> fst (snd (logging_middleware time request handler s)) = snd (handler request s)
   \<and> calls_of (snd (snd (logging_middleware time request handler s))) = [request]"
proof -
  have pre: "calls_of (log_request request @ xs) = calls_of xs" for xs
    by (simp add: log_request_def split: option.splits list.splits)
  show ?thesis
    by (cases "handler request s") (auto simp: logging_middleware_def Let_def pre split: sum.splits)
qed

section \<open>The tool-error stage\<close>

text \<open>
  Claim C3. When the handler of a tool invocation raises, the tool-error stage does not
  raise: it returns a tool message whose \<open>tool_call_id\<close> is the id of the tool call
  of the request and whose content describes the error (the tool's name, the message
  of the exception and a hint). The sync and the async entry points agree, and the
  handler is called once.
\<close>

theorem tool_error_isolated:
  assumes "handler request s = (Inl e, s')"
    and "tool_call request ''id'' = Some i"
  shows "fst (wrap_tool_call request handler s) =
           Inr (Message \<lparr>content = ''Tool error in '' @ sq
                            @ (case tool_call request ''name'' of Some n \<Rightarrow> n | None \<Rightarrow> ''unknown'')
                            @ sq @ '': '' @ str_exc e @ ''. Please check your input and try again.'',
                          tool_call_id = i\<rparr>)
         \<and> awrap_tool_call request handler s = wrap_tool_call request handler s
         \<and> fst (snd (wrap_tool_call request handler s)) = s'
         \<and> calls_of (snd (snd (wrap_tool_call request handler s))) = [request]"
  using assms
  by (simp add: wrap_tool_call_def awrap_tool_call_def handle_def error_message_def Let_def)

text \<open>Claim C3 at a call of \<open>calculate\<close> whose handler raises ValueError.\<close>

theorem tool_error_isolated_witness:
  "fst (wrap_tool_call calculate_call failing_tool 0) =
     Inr (Message \<lparr>content = ''Tool error in '' @ sq @ ''calculate'' @ sq
                      @ '': bad input. Please check your input and try again.'',
                    tool_call_id = ''call_1''\<rparr>)"
proof -
  have h: "failing_tool calculate_call 0 = (Inl (PyExc ''ValueError'' ''bad input''), Suc 0)"
    by (simp add: failing_tool_def)
  have i: "tool_call calculate_call ''id'' = Some ''call_1''"
    by (simp add: calculate_call_def)
  from tool_error_isolated [where handler = failing_tool and request = calculate_call and s = 0, OF h i]
  show ?thesis
    by (simp add: calculate_call_def)
qed

section \<open>The retry stage\<close>

lemma outcomes_add:
  "outcomes handler request s (m + k) =
     outcomes handler request s m @ outcomes handler request (state_after handler request s m) k"
  by (induction m arbitrary: s) auto

lemma state_after_add:
  "state_after handler request s (m + k) =
     state_after handler request (state_after handler request s m) k"
  by (induction m arbitrary: s) auto

lemma length_outcomes: "length (outcomes handler request s n) = n"
  by (induction n arbitrary: s) auto

lemma retry_delay_in_range: "attempt < 1024 \<Longrightarrow> retry_delay attempt = Inr (capped_delay attempt)"
  by (simp add: retry_delay_def float_times_pow2_def capped_delay_def)

lemma retry_delay_overflow:
  "1024 \<le> attempt \<Longrightarrow>
   retry_delay attempt = Inl (PyExc ''OverflowError'' ''int too large to convert to float'')"
  by (simp add: retry_delay_def float_times_pow2_def)

lemma retry_loop_failures:
  assumes "outcomes handler request s (length es) = map Inl es"
    and "length attempts = length es"
    and "\<forall>a \<in> set attempts. a < 1024"
  shows "retry_loop mr request handler (attempts @ rest) last_error s =
     (case retry_loop mr request handler rest (if es = [] then last_error else Some (last es))
             (state_after handler request s (length es)) of
        (result, s'', effects) \<Rightarrow>
          (result, s'', concat (map (failed_attempt request) (zip attempts es)) @ effects))"
  using assms
proof (induction es arbitrary: attempts last_error s)
  case Nil
  then show ?case by simp
next
  case (Cons e es)
  from Cons.prems(2) obtain a as where att: "attempts = a # as" and len: "length as = length es"
    by (cases attempts) auto
  from Cons.prems(3) att have a: "retry_delay a = Inr (capped_delay a)"
    and small: "\<forall>a \<in> set as. a < 1024"
    by (simp_all add: retry_delay_in_range)
  from Cons.prems(1) have h: "fst (handler request s) = Inl e"
    and rest: "outcomes handler request (snd (handler request s)) (length es) = map Inl es"
    by auto
  obtain s1 where hs: "handler request s = (Inl e, s1)"
    using h by (cases "handler request s") auto
  from rest hs have rest': "outcomes handler request s1 (length es) = map Inl es"
    by simp
  have le: "(if es = [] then Some e else Some (last es)) = Some (last (e # es))"
    by simp
  show ?case
    unfolding att
    by (simp add: hs a Cons.IH [OF rest' len small] le failed_attempt_def Let_def
        split: prod.splits del: last.simps)
qed

lemma calls_of_append: "calls_of (xs @ ys) = calls_of xs @ calls_of ys"
  by (induction xs rule: calls_of.induct) auto

lemma sleeps_of_append: "sleeps_of (xs @ ys) = sleeps_of xs @ sleeps_of ys"
  by (induction xs rule: sleeps_of.induct) auto

lemma calls_of_failed:
  "length attempts = length es \<Longrightarrow>
   calls_of (concat (map (failed_attempt request) (zip attempts es))) = replicate (length es) request"
  by (induction attempts es rule: list_induct2) (auto simp: failed_attempt_def)

lemma sleeps_of_failed:
  "length attempts = length es \<Longrightarrow>
   sleeps_of (concat (map (failed_attempt request) (zip attempts es))) = map capped_delay attempts"
  by (induction attempts es rule: list_induct2) (auto simp: failed_attempt_def)

lemma capped_delay_increasing:
  "capped_delay k < max_retry_delay middleware_config \<Longrightarrow> capped_delay k < capped_delay (Suc k)"
  by (auto simp: capped_delay_def middleware_config_def min_def split: if_splits)

text \<open>
  While the failed attempts stay within the range of the float conversion (at most
  1024 of them), a model call that fails and then succeeds within \<open>MAX_RETRIES\<close>
  attempts is called once per attempt with the same request, each failed attempt is
  followed by a sleep of \<open>base * 2^attempt\<close> capped at the maximum delay, and the
  response is returned. The delays grow strictly until they reach the cap.
\<close>

lemma retry_succeeds_within_float_range:
  assumes "outcomes handler request s (Suc (length es)) = map Inl es @ [Inr reply]"
    and "int (Suc (length es)) \<le> MAX_RETRIES settings"
    and "length es \<le> 1024"
  shows "fst (retry_middleware settings request handler s) = Inr reply
     \<and> fst (snd (retry_middleware settings request handler s))
         = state_after handler request s (Suc (length es))
     \<and> snd (snd (retry_middleware settings request handler s))
         = concat (map (failed_attempt request) (zip [0..<length es] es)) @ [Call request]
     \<and> calls_of (snd (snd (retry_middleware settings request handler s)))
         = replicate (Suc (length es)) request
     \<and> sleeps_of (snd (snd (retry_middleware settings request handler s)))
         = map (\<lambda>attempt. min (retry_base_delay middleware_config * 2 ^ attempt)
                            (max_retry_delay middleware_config)) [0..<length es]
     \<and> (\<forall>k. capped_delay k < max_retry_delay middleware_config
            \<longrightarrow> capped_delay k < capped_delay (Suc k))
     \<and> (\<forall>k. capped_delay k \<le> max_retry_delay middleware_config)"
proof -
  let ?n = "length es"
  let ?sn = "state_after handler request s ?n"
  from assms(1) have "outcomes handler request s (?n + 1) = map Inl es @ [Inr reply]"
    by simp
  then have split: "outcomes handler request s ?n @ outcomes handler request ?sn 1
      = map Inl es @ [Inr reply]"
    by (simp only: outcomes_add)
  have fails: "outcomes handler request s ?n = map Inl es"
    using split by (simp add: append_eq_append_conv length_outcomes)
  have "outcomes handler request ?sn 1 = [Inr reply]"
    using split by (simp add: append_eq_append_conv length_outcomes)
  then have ok: "fst (handler request ?sn) = Inr reply"
    by simp
  obtain s1 where hs: "handler request ?sn = (Inr reply, s1)"
    using ok by (cases "handler request ?sn") auto
  have s1: "s1 = state_after handler request s (Suc ?n)"
    using state_after_add [of handler request s ?n 1] hs by simp
  from assms(2) have lt: "?n < nat (MAX_RETRIES settings)"
    by linarith
  then have range: "py_range (MAX_RETRIES settings)
      = [0..<?n] @ ?n # [Suc ?n..<nat (MAX_RETRIES settings)]"
    unfolding py_range_def
    using upt_add_eq_append [of 0 ?n "nat (MAX_RETRIES settings) - ?n"]
    by (simp add: upt_conv_Cons)
  have small: "\<forall>a \<in> set [0..<?n]. a < 1024"
    using assms(3) by auto
  have len: "length [0..<?n] = ?n"
    by simp
  have run: "retry_middleware settings request handler s
      = (Inr reply, s1, concat (map (failed_attempt request) (zip [0..<?n] es)) @ [Call request])"
    unfolding retry_middleware_def range
    by (subst retry_loop_failures [OF fails len small]) (simp add: hs)
  have calls: "calls_of (concat (map (failed_attempt request) (zip [0..<?n] es)) @ [Call request])
      = replicate (Suc ?n) request"
    by (simp add: calls_of_append calls_of_failed replicate_append_same)
  have sleeps: "sleeps_of (concat (map (failed_attempt request) (zip [0..<?n] es)) @ [Call request])
      = map (\<lambda>attempt. min (retry_base_delay middleware_config * 2 ^ attempt)
                         (max_retry_delay middleware_config)) [0..<?n]"
    by (simp add: sleeps_of_append sleeps_of_failed capped_delay_def [abs_def])
  have bound: "capped_delay k \<le> max_retry_delay middleware_config" for k
    by (simp add: capped_delay_def)
  show ?thesis
    unfolding run using s1 calls sleeps bound capped_delay_increasing by simp
qed

text \<open>
  At a call that times out five times, with six attempts allowed, the delays are 1, 2,
  4, 8 and then the cap 10.
\<close>

lemma retry_succeeds_within_float_range_example:
  "fst (retry_middleware patient_settings () slow_model 0) = Inr ''ok''
   \<and> calls_of (snd (snd (retry_middleware patient_settings () slow_model 0)))
       = [(), (), (), (), (), ()]
   \<and> sleeps_of (snd (snd (retry_middleware patient_settings () slow_model 0))) = [1, 2, 4, 8, 10]"
proof -
  let ?e = "PyExc ''TimeoutError'' ''timed out''"
  have a: "outcomes slow_model () 0 (Suc (length [?e, ?e, ?e, ?e, ?e]))
           = map Inl [?e, ?e, ?e, ?e, ?e] @ [Inr ''ok'']"
    by (simp add: slow_model_def)
  have b: "int (Suc (length [?e, ?e, ?e, ?e, ?e])) \<le> MAX_RETRIES patient_settings"
    by (simp add: patient_settings_def)
  have c: "length [?e, ?e, ?e, ?e, ?e] \<le> 1024"
    by simp
  note t = retry_succeeds_within_float_range [OF a b c]
  from t have r: "fst (retry_middleware patient_settings () slow_model 0) = Inr ''ok''"
    by blast
  from t have c: "calls_of (snd (snd (retry_middleware patient_settings () slow_model 0)))
      = replicate (Suc (length [?e, ?e, ?e, ?e, ?e])) ()"
    by blast
  from t have d: "sleeps_of (snd (snd (retry_middleware patient_settings () slow_model 0)))
      = map (\<lambda>attempt. min (retry_base_delay middleware_config * 2 ^ attempt)
                         (max_retry_delay middleware_config))
          [0..<length [?e, ?e, ?e, ?e, ?e]]"
    by blast
  show ?thesis
    unfolding r c d by (simp add: middleware_config_def upt_rec)
qed

lemma stubborn_outcomes:
  "s + n \<le> 1025 \<Longrightarrow>
   outcomes stubborn_model () s n = map Inl (replicate n (PyExc ''TimeoutError'' ''timed out''))"
  by (induction n arbitrary: s) (auto simp: stubborn_model_def)

lemma stubborn_state_after: "state_after stubborn_model () s n = s + n"
  by (induction n arbitrary: s) (auto simp: stubborn_model_def)

text \<open>
  When the first 1025 calls fail and that many attempts are allowed, the delay after
  the failure of attempt 1024 cannot be computed: the retry stage leaves with
  OverflowError after 1025 calls.
\<close>

lemma retry_overflow:
  assumes "outcomes handler request s (Suc (length es)) = map Inl es @ [Inl e]"
    and "length es = 1024"
    and "int (Suc (length es)) \<le> MAX_RETRIES settings"
  shows "fst (retry_middleware settings request handler s)
           = Inl (PyExc ''OverflowError'' ''int too large to convert to float'')
     \<and> calls_of (snd (snd (retry_middleware settings request handler s)))
         = replicate (Suc (length es)) request"
proof -
  let ?n = "length es"
  let ?sn = "state_after handler request s ?n"
  from assms(1) have "outcomes handler request s (?n + 1) = map Inl es @ [Inl e]"
    by simp
  then have split: "outcomes handler request s ?n @ outcomes handler request ?sn 1
      = map Inl es @ [Inl e]"
    by (simp only: outcomes_add)
  have fails: "outcomes handler request s ?n = map Inl es"
    using split by (simp add: append_eq_append_conv length_outcomes)
  have "outcomes handler request ?sn 1 = [Inl e]"
    using split by (simp add: append_eq_append_conv length_outcomes)
  then have ok: "fst (handler request ?sn) = Inl e"
    by simp
  obtain s1 where hs: "handler request ?sn = (Inl e, s1)"
    using ok by (cases "handler request ?sn") auto
  from assms(3) have lt: "?n < nat (MAX_RETRIES settings)"
    by linarith
  then have range: "py_range (MAX_RETRIES settings)
      = [0..<?n] @ ?n # [Suc ?n..<nat (MAX_RETRIES settings)]"
    unfolding py_range_def
    using upt_add_eq_append [of 0 ?n "nat (MAX_RETRIES settings) - ?n"]
    by (simp add: upt_conv_Cons)
  have small: "\<forall>a \<in> set [0..<?n]. a < 1024"
    using assms(2) by simp
  have len: "length [0..<?n] = ?n"
    by simp
  have over: "retry_delay ?n = Inl (PyExc ''OverflowError'' ''int too large to convert to float'')"
    using assms(2) by (simp only: retry_delay_overflow order_refl)
  have run: "retry_middleware settings request handler s
      = (Inl (PyExc ''OverflowError'' ''int too large to convert to float''), s1,
         concat (map (failed_attempt request) (zip [0..<?n] es)) @ [Call request])"
    unfolding retry_middleware_def range
    by (subst retry_loop_failures [OF fails len small]) (simp add: hs over)
  have calls: "calls_of (concat (map (failed_attempt request) (zip [0..<?n] es)) @ [Call request])
      = replicate (Suc ?n) request"
    by (simp add: calls_of_append calls_of_failed replicate_append_same)
  show ?thesis
    unfolding run using calls by simp
qed

text \<open>
  Claim C1 at a model call that fails 1025 times and then succeeds, with
  \<open>MAX_RETRIES = 1026\<close>. The claim asks for 1026 calls and the successful response.
  The retry stage calls the handler 1025 times and then raises OverflowError: after
  the failure of attempt 1024 the delay \<open>1.0 * (2**1024)\<close> cannot be computed, so the
  attempt that would succeed is never made.
\<close>

theorem retry_overflow_at_attempt_1024:
  "outcomes stubborn_model () 0 1026
     = map Inl (replicate 1025 (PyExc ''TimeoutError'' ''timed out'')) @ [Inr ''ok'']
   \<and> 1026 \<le> MAX_RETRIES stubborn_settings
   \<and> fst (retry_middleware stubborn_settings () stubborn_model 0)
       = Inl (PyExc ''OverflowError'' ''int too large to convert to float'')
   \<and> calls_of (snd (snd (retry_middleware stubborn_settings () stubborn_model 0)))
       = replicate 1025 ()"
proof -
  let ?e = "PyExc ''TimeoutError'' ''timed out''"
  let ?es = "replicate 1024 ?e"
  have n1025: "Suc 1024 = (1025::nat)" and n1026: "1025 + 1 = (1026::nat)"
    by simp_all
  have last_call: "outcomes stubborn_model () 1025 1 = [Inr ''ok'']"
    by (simp add: stubborn_model_def)
  have "outcomes stubborn_model () 0 (1025 + 1)
      = outcomes stubborn_model () 0 1025 @ outcomes stubborn_model () (0 + 1025) 1"
    by (simp only: outcomes_add stubborn_state_after)
  also have "outcomes stubborn_model () 0 1025 = map Inl (replicate 1025 ?e)"
    by (rule stubborn_outcomes) simp
  finally have o: "outcomes stubborn_model () 0 1026
      = map Inl (replicate 1025 ?e) @ [Inr ''ok'']"
    using last_call by (simp only: n1026 add_0)
  have m: "1026 \<le> MAX_RETRIES stubborn_settings"
    by (simp add: stubborn_settings_def)
  have l: "length ?es = 1024"
    by (simp only: length_replicate)
  have "outcomes stubborn_model () 0 (Suc (length ?es)) = map Inl (replicate (Suc (length ?es)) ?e)"
    by (rule stubborn_outcomes) (simp only: l n1025 add_0 order_refl)
  also have "replicate (Suc (length ?es)) ?e = ?es @ [?e]"
    by (simp only: l replicate_append_same replicate_Suc)
  finally have a: "outcomes stubborn_model () 0 (Suc (length ?es)) = map Inl ?es @ [Inl ?e]"
    by (simp only: map_append list.map)
  have b: "int (Suc (length ?es)) \<le> MAX_RETRIES stubborn_settings"
    unfolding l using m by simp
  note t = retry_overflow [OF a l b]
  from t have r: "fst (retry_middleware stubborn_settings () stubborn_model 0)
      = Inl (PyExc ''OverflowError'' ''int too large to convert to float'')"
    by (rule conjunct1)
  from t have "calls_of (snd (snd (retry_middleware stubborn_settings () stubborn_model 0)))
      = replicate (Suc (length ?es)) ()"
    by (rule conjunct2)
  then have c: "calls_of (snd (snd (retry_middleware stubborn_settings () stubborn_model 0)))
      = replicate 1025 ()"
    by (simp only: l n1025)
  from o m r c show ?thesis
    by (intro conjI)
qed

text \<open>
  Claim C2, as the code has it. When the model call fails at every attempt and
  \<open>MAX_RETRIES\<close> is at least 1 and at most 1024, the retry stage calls the handler
  exactly \<open>MAX_RETRIES\<close> times and then raises the failure of the last attempt.
\<close>

theorem retry_exhausted:
  assumes "outcomes handler request s (nat (MAX_RETRIES settings)) = map Inl es"
    and "1 \<le> MAX_RETRIES settings"
    and "MAX_RETRIES settings \<le> 1024"
  shows "fst (retry_middleware settings request handler s) = Inl (last es)
     \<and> fst (snd (retry_middleware settings request handler s))
         = state_after handler request s (nat (MAX_RETRIES settings))
     \<and> calls_of (snd (snd (retry_middleware settings request handler s)))
         = replicate (nat (MAX_RETRIES settings)) request"
proof -
  have len: "length es = nat (MAX_RETRIES settings)"
    using arg_cong [OF assms(1), of length] by (simp add: length_outcomes)
  with assms(2) have ne: "es \<noteq> []"
    by auto
  have fails: "outcomes handler request s (length es) = map Inl es"
    using assms(1) len by simp
  have small: "\<forall>a \<in> set [0..<length es]. a < 1024"
    using assms(3) len by auto
  have len': "length [0..<length es] = length es"
    by simp
  have run: "retry_middleware settings request handler s
      = (Inl (last es), state_after handler request s (length es),
         concat (map (failed_attempt request) (zip [0..<length es] es))
           @ [Log (RetryAllFailed (MAX_RETRIES settings))])"
    unfolding retry_middleware_def py_range_def len [symmetric]
    using retry_loop_failures [OF fails len' small, of "MAX_RETRIES settings" "[]" None] ne
    by simp
  show ?thesis
    unfolding run by (simp add: len calls_of_append calls_of_failed)
qed

text \<open>Claim C2 at a call that always fails, with the default three attempts.\<close>

theorem retry_exhausted_witness:
  "fst (retry_middleware default_settings () failing_model 0)
     = Inl (PyExc ''RuntimeError'' ''later failure'')
   \<and> calls_of (snd (snd (retry_middleware default_settings () failing_model 0))) = [(), (), ()]"
proof -
  have a: "outcomes failing_model () 0 (nat (MAX_RETRIES default_settings))
      = map Inl [PyExc ''RuntimeError'' ''first failure'', PyExc ''RuntimeError'' ''later failure'',
                 PyExc ''RuntimeError'' ''later failure'']"
    by (simp add: failing_model_def default_settings_def numeral_3_eq_3)
  have b: "1 \<le> MAX_RETRIES default_settings"
    by (simp add: default_settings_def)
  have c: "MAX_RETRIES default_settings \<le> 1024"
    by (simp add: default_settings_def)
  from retry_exhausted [OF a b c] show ?thesis
    by (simp add: default_settings_def numeral_3_eq_3)
qed

text \<open>
  Claim C2 as stated fails when the attempts fail differently: the failure raised is
  the last one, not the one of the first attempt.
\<close>

theorem retry_first_failure_counterexample:
  "outcomes failing_model () 0 3
     = [Inl (PyExc ''RuntimeError'' ''first failure''), Inl (PyExc ''RuntimeError'' ''later failure''),
        Inl (PyExc ''RuntimeError'' ''later failure'')]
   \<and> fst (retry_middleware default_settings () failing_model 0)
       \<noteq> Inl (PyExc ''RuntimeError'' ''first failure'')"
  by (simp add: retry_middleware_def py_range_def default_settings_def failing_model_def
      numeral_3_eq_3 upt_rec Let_def retry_delay_def float_times_pow2_def)

section \<open>The endpoints\<close>

text \<open>
  Claim C6 at the request \<open>{message: 2+2, node: nonexistent}\<close>. Both endpoints answer
  with status 400 and never call the graph, but only the message of \<open>/invoke\<close> names
  the valid nodes; the message of \<open>/stream\<close> stops after the unknown name.
\<close>

theorem stream_unknown_node_detail:
  "stream uuid4 astream_events (ask ''nonexistent'' None) w
     = (Inl (HTTPException 400 ''Unknown node: nonexistent''), w, [])
   \<and> invoke uuid4 ainvoke (ask ''nonexistent'' None) w
     = (Inl (HTTPException 400
               (''Unknown node: nonexistent. Available: ['' @ sq @ ''assistant'' @ sq @ '']'')),
        w, [])"
proof -
  have r: "py_repr_str ''assistant'' = sq @ ''assistant'' @ sq"
    by (simp add: py_repr_str_def repr_char_def py_printable_def sq_def Let_def)
  show ?thesis
    by (simp add: stream_def invoke_def ask_def NODES_def py_repr_list_def r)
qed

text \<open>
  Claim C7, as the code has it. When the event stream of the graph completes, the
  generator yields the token events and then the sentinel \<open>data: [DONE]\<close> as its last
  event. When the stream fails, it yields the token events emitted before the failure
  and then the error event \<open>data: Error: \<close> with the message of the failure as its
  last event, without the sentinel. In both cases it yields at least one event.
\<close>

theorem generate_last_event:
  "(\<forall>events w'. astream_events (graph_input request) tid context w = ((events, None), w')
      \<longrightarrow> fst (generate astream_events request tid context w)
            = token_events events @ [''data: [DONE]'' @ nl @ nl])
   \<and> (\<forall>events e w'. astream_events (graph_input request) tid context w = ((events, Some e), w')
      \<longrightarrow> fst (generate astream_events request tid context w)
            = token_events events @ [''data: Error: '' @ str_exc e @ nl @ nl])
   \<and> fst (generate astream_events request tid context w) \<noteq> []"
  by (cases "astream_events (graph_input request) tid context w")
     (auto simp: generate_def split: option.splits)

text \<open>Claim C7 at a stream that completes and at one that fails after a token.\<close>

theorem generate_last_event_witness:
  "fst (generate completing_events (ask ''assistant'' None) ''t1'' (ask_context ''t1'') 0)
     = [''data: 4'' @ nl @ nl, ''data: [DONE]'' @ nl @ nl]
   \<and> fst (generate failing_events (ask ''assistant'' None) ''t1'' (ask_context ''t1'') 0)
     = [''data: Hel'' @ nl @ nl, ''data: Error: connection lost'' @ nl @ nl]"
  using generate_last_event [of completing_events "ask ''assistant'' None" "''t1''" "ask_context ''t1''" 0]
    generate_last_event [of failing_events "ask ''assistant'' None" "''t1''" "ask_context ''t1''" 0]
  by (simp add: completing_events_def failing_events_def)

text \<open>
  Claim C7 as stated fails on a stream that fails: no \<open>data: [DONE]\<close> event follows
  the error event.
\<close>

theorem generate_sentinel_counterexample:
  "''data: [DONE]'' @ nl @ nl
     \<notin> set (fst (generate failing_events (ask ''assistant'' None) ''t1'' (ask_context ''t1'') 0))"
  by (simp add: generate_def failing_events_def nl_def)

text \<open>
  Claim C8. When \<open>/invoke\<close> answers with a response and the request had no
  \<open>thread_id\<close>, the \<open>thread_id\<close> of the response is the uuid generated for this
  request; when the request supplied a non-empty \<open>thread_id\<close>, the response carries it.
\<close>

theorem invoke_thread_id:
  assumes "invoke uuid4 ainvoke request w = (Inr resp, w', effects)"
  shows "(thread_id request = None \<longrightarrow> resp_thread_id resp = fst (uuid4 w))
         \<and> (\<forall>t. thread_id request = Some t \<and> t \<noteq> [] \<longrightarrow> resp_thread_id resp = t)"
proof (cases "node request \<in> set NODES")
  case False
  with assms show ?thesis by (simp add: invoke_def)
next
  case True
  obtain tid w1 where c: "choose_thread_id uuid4 request w = (tid, w1)"
    by (cases "choose_thread_id uuid4 request w")
  obtain r w2 where g: "ainvoke (graph_input request) tid (make_context request tid) w1 = (r, w2)"
    by (cases "ainvoke (graph_input request) tid (make_context request tid) w1")
  from assms True c g have "resp_thread_id resp = tid"
    by (cases r) (auto simp: invoke_def Let_def)
  moreover from c have "thread_id request = None \<longrightarrow> tid = fst (uuid4 w)"
    by (auto simp: choose_thread_id_def)
  moreover from c have "\<forall>t. thread_id request = Some t \<and> t \<noteq> [] \<longrightarrow> tid = t"
    by (auto simp: choose_thread_id_def)
  ultimately show ?thesis by simp
qed

text \<open>Claim C8 at a request without a thread id and at one with the thread id \<open>t1\<close>.\<close>

theorem invoke_thread_id_witness:
  "invoke uuid_source answering_graph (ask ''assistant'' None) 0 =
      (Inr \<lparr>resp_thread_id = ''uuid-'', resp_node = ''assistant'', response = ''4'',
            resp_structured_response = None\<rparr>,
       Suc 0,
       [Call (graph_input (ask ''assistant'' None), ''uuid-'', ask_context ''uuid-'')])
   \<and> resp_thread_id
         \<lparr>resp_thread_id = ''uuid-'', resp_node = ''assistant'', response = ''4'',
          resp_structured_response = None\<rparr> = fst (uuid_source 0)
   \<and> invoke uuid_source answering_graph (ask ''assistant'' (Some ''t1'')) 0 =
      (Inr \<lparr>resp_thread_id = ''t1'', resp_node = ''assistant'', response = ''4'',
            resp_structured_response = None\<rparr>,
       0,
       [Call (graph_input (ask ''assistant'' (Some ''t1'')), ''t1'', ask_context ''t1'')])
   \<and> resp_thread_id
         \<lparr>resp_thread_id = ''t1'', resp_node = ''assistant'', response = ''4'',
          resp_structured_response = None\<rparr> = ''t1''"
proof -
  have a: "invoke uuid_source answering_graph (ask ''assistant'' None) 0 =
      (Inr \<lparr>resp_thread_id = ''uuid-'', resp_node = ''assistant'', response = ''4'',
            resp_structured_response = None\<rparr>,
       Suc 0,
       [Call (graph_input (ask ''assistant'' None), ''uuid-'', ask_context ''uuid-'')])"
    by (simp add: invoke_def ask_def NODES_def choose_thread_id_def uuid_source_def
        answering_graph_def make_context_def or_else_def graph_input_def response_text_def
        last_content_def ask_context_def)
  have b: "invoke uuid_source answering_graph (ask ''assistant'' (Some ''t1'')) 0 =
      (Inr \<lparr>resp_thread_id = ''t1'', resp_node = ''assistant'', response = ''4'',
            resp_structured_response = None\<rparr>,
       0,
       [Call (graph_input (ask ''assistant'' (Some ''t1'')), ''t1'', ask_context ''t1'')])"
    by (simp add: invoke_def ask_def NODES_def choose_thread_id_def uuid_source_def
        answering_graph_def make_context_def or_else_def graph_input_def response_text_def
        last_content_def ask_context_def)
  from invoke_thread_id [OF a]
  have 1: "resp_thread_id
         \<lparr>resp_thread_id = ''uuid-'', resp_node = ''assistant'', response = ''4'',
          resp_structured_response = None\<rparr> = fst (uuid_source 0)"
    by (simp add: ask_def)
  from invoke_thread_id [OF b]
  have 2: "resp_thread_id
         \<lparr>resp_thread_id = ''t1'', resp_node = ''assistant'', response = ''4'',
          resp_structured_response = None\<rparr> = ''t1''"
    by (simp add: ask_def)
  from a b 1 2 show ?thesis
    by blast
qed

end
